theory Spec2Isabelle
  imports Complex_Main "HOL-Library.AList"
begin

section \<open>Entity schema registry (schemas.py)\<close>

text \<open>
  The eighteen Pydantic model classes of \<^verbatim>\<open>schemas.py\<close>, in the order in which the
  module declares them (which is also the order of the import list of \<^verbatim>\<open>main.py\<close>).
\<close>

datatype kind =
    Tenant | User | Teacher | Parent | Student | Class | Enrollment | Attendance
  | GradeRecord | Invoice | Payment | Announcement | Notification | Resource
  | Assignment | Quiz | QuizSubmission | ActivityLog

definition all_kinds :: "kind list" where
  "all_kinds =
     [Tenant, User, Teacher, Parent, Student, Class, Enrollment, Attendance,
      GradeRecord, Invoice, Payment, Announcement, Notification, Resource,
      Assignment, Quiz, QuizSubmission, ActivityLog]"

text \<open>The \<^verbatim>\<open>__name__\<close> attribute of each model class.\<close>

fun class_name :: "kind \<Rightarrow> string" where
  "class_name Tenant = ''Tenant''"
| "class_name User = ''User''"
| "class_name Teacher = ''Teacher''"
| "class_name Parent = ''Parent''"
| "class_name Student = ''Student''"
| "class_name Class = ''Class''"
| "class_name Enrollment = ''Enrollment''"
| "class_name Attendance = ''Attendance''"
| "class_name GradeRecord = ''GradeRecord''"
| "class_name Invoice = ''Invoice''"
| "class_name Payment = ''Payment''"
| "class_name Announcement = ''Announcement''"
| "class_name Notification = ''Notification''"
| "class_name Resource = ''Resource''"
| "class_name Assignment = ''Assignment''"
| "class_name Quiz = ''Quiz''"
| "class_name QuizSubmission = ''QuizSubmission''"
| "class_name ActivityLog = ''ActivityLog''"

subsection \<open>Values and field declarations\<close>

text \<open>
  Python values as they occur in request bodies, defaults and stored documents:
  \<^verbatim>\<open>None\<close>, booleans, numbers, strings, lists and string-keyed dictionaries (kept as
  association lists, in insertion order). \<open>VOid\<close> is the identifier object the
  document store issues for a stored document, carrying its printed form; it never
  occurs in a request body.
\<close>

datatype val =
    VNone
  | VBool bool
  | VNum rat
  | VStr string
  | VList "val list"
  | VDict "(string \<times> val) list"
  | VOid string

text \<open>The type annotations used by the field declarations of \<^verbatim>\<open>schemas.py\<close>.\<close>

datatype ftype =
    Str | EmailStr | Bool | Float | Date | Datetime | Any
  | ListOf ftype | DictOf ftype | Optional ftype

text \<open>
  A field either has no default (\<^verbatim>\<open>Field(...)\<close> with the ellipsis, or a bare
  annotation) and is required, or declares a default value; \<^verbatim>\<open>default_factory=dict\<close>
  and \<^verbatim>\<open>default_factory=list\<close> are the defaults \<open>VDict []\<close> and \<open>VList []\<close>.
\<close>

datatype default = Required | Default val

datatype field = Field (fname: string) (ftyp: ftype) (fdefault: default)

abbreviation req :: "string \<Rightarrow> ftype \<Rightarrow> field" where
  "req n t \<equiv> Field n t Required"

abbreviation opt :: "string \<Rightarrow> ftype \<Rightarrow> field" where
  "opt n t \<equiv> Field n (Optional t) (Default VNone)"

text \<open>
  The declared fields of each model class, in declaration order (what Pydantic keeps
  as \<^verbatim>\<open>model_fields\<close>).
\<close>

fun model_fields :: "kind \<Rightarrow> field list" where
  "model_fields Tenant =
     [req ''name'' Str, req ''code'' Str, opt ''address'' Str, opt ''contact_email'' EmailStr,
      opt ''contact_phone'' Str,
      Field ''timezone'' (Optional Str) (Default (VStr ''UTC'')),
      Field ''status'' Str (Default (VStr ''active''))]"
| "model_fields User =
     [req ''tenant_id'' Str, req ''name'' Str, req ''email'' EmailStr, req ''role'' Str,
      opt ''password_hash'' Str,
      Field ''is_active'' Bool (Default (VBool True))]"
| "model_fields Teacher =
     [req ''tenant_id'' Str, opt ''user_id'' Str, opt ''employee_id'' Str,
      Field ''subjects'' (ListOf Str) (Default (VList [])),
      opt ''hire_date'' Date,
      Field ''status'' Str (Default (VStr ''active''))]"
| "model_fields Parent =
     [req ''tenant_id'' Str, opt ''user_id'' Str,
      Field ''children_ids'' (ListOf Str) (Default (VList []))]"
| "model_fields Student =
     [req ''tenant_id'' Str, opt ''user_id'' Str, req ''student_number'' Str,
      req ''first_name'' Str, req ''last_name'' Str, req ''grade_level'' Str,
      opt ''dob'' Date, opt ''guardian_contact'' Str, opt ''address'' Str,
      Field ''status'' Str (Default (VStr ''active''))]"
| "model_fields Class =
     [req ''tenant_id'' Str, req ''name'' Str, req ''code'' Str, req ''subject'' Str,
      req ''grade_level'' Str, opt ''teacher_id'' Str,
      Field ''schedule'' (DictOf Any) (Default (VDict []))]"
| "model_fields Enrollment =
     [req ''tenant_id'' Str, req ''class_id'' Str, req ''student_id'' Str,
      opt ''enrollment_date'' Date,
      Field ''status'' Str (Default (VStr ''enrolled''))]"
| "model_fields Attendance =
     [req ''tenant_id'' Str, req ''class_id'' Str, req ''student_id'' Str,
      req ''date'' Date, req ''status'' Str, opt ''method'' Str]"
| "model_fields GradeRecord =
     [req ''tenant_id'' Str, req ''student_id'' Str, req ''class_id'' Str, req ''term'' Str,
      Field ''scores'' (DictOf Float) (Default (VDict [])),
      opt ''remarks'' Str]"
| "model_fields Invoice =
     [req ''tenant_id'' Str, req ''student_id'' Str, req ''title'' Str, req ''amount'' Float,
      opt ''due_date'' Date,
      Field ''status'' Str (Default (VStr ''unpaid'')),
      Field ''meta'' (DictOf Any) (Default (VDict []))]"
| "model_fields Payment =
     [req ''tenant_id'' Str, req ''invoice_id'' Str, req ''method'' Str, req ''amount'' Float,
      opt ''reference'' Str,
      Field ''status'' Str (Default (VStr ''success''))]"
| "model_fields Announcement =
     [req ''tenant_id'' Str, req ''title'' Str, req ''message'' Str,
      Field ''audience'' (ListOf Str)
        (Default (VList [VStr ''students'', VStr ''teachers'', VStr ''parents''])),
      opt ''starts_at'' Datetime, opt ''ends_at'' Datetime]"
| "model_fields Notification =
     [req ''tenant_id'' Str, req ''user_id'' Str, req ''title'' Str, req ''message'' Str,
      Field ''type'' Str (Default (VStr ''info'')),
      Field ''is_read'' Bool (Default (VBool False))]"
| "model_fields Resource =
     [req ''tenant_id'' Str, req ''title'' Str, req ''subject'' Str, req ''grade_level'' Str,
      opt ''difficulty'' Str, opt ''url'' Str,
      Field ''tags'' (ListOf Str) (Default (VList []))]"
| "model_fields Assignment =
     [req ''tenant_id'' Str, req ''class_id'' Str, req ''title'' Str,
      opt ''description'' Str, opt ''due_date'' Datetime]"
| "model_fields Quiz =
     [req ''tenant_id'' Str, req ''class_id'' Str, req ''title'' Str,
      Field ''questions'' (ListOf (DictOf Any)) (Default (VList []))]"
| "model_fields QuizSubmission =
     [req ''tenant_id'' Str, req ''quiz_id'' Str, req ''student_id'' Str,
      Field ''answers'' (ListOf Any) (Default (VList [])),
      opt ''score'' Float]"
| "model_fields ActivityLog =
     [req ''tenant_id'' Str, opt ''user_id'' Str, req ''action'' Str, req ''entity'' Str,
      opt ''entity_id'' Str,
      Field ''meta'' (DictOf Any) (Default (VDict []))]"

definition field_names :: "kind \<Rightarrow> string list" where
  "field_names k = map fname (model_fields k)"

section \<open>Collection names (main.py, collection\_name)\<close>

text \<open>
  Python's \<^verbatim>\<open>str.lower\<close> on the ASCII range: the letters \<^verbatim>\<open>A\<close> to \<^verbatim>\<open>Z\<close>
  (codes 65 to 90) move to \<^verbatim>\<open>a\<close> to \<^verbatim>\<open>z\<close>, every other character stays.
  Class names are ASCII identifiers, so nothing beyond that range is needed.
\<close>

definition lower_char :: "char \<Rightarrow> char" where
  "lower_char c =
     (let n = (of_char c :: nat) in if 65 \<le> n \<and> n \<le> 90 then char_of (n + 32) else c)"

definition lower :: "string \<Rightarrow> string" where
  "lower s = map lower_char s"

text \<open>\<^verbatim>\<open>def collection_name(model_cls): return model_cls.__name__.lower()\<close>\<close>

definition collection_name :: "kind \<Rightarrow> string" where
  "collection_name model_cls = lower (class_name model_cls)"

section \<open>Request validation\<close>

text \<open>
  Modelled from the spec: the validator itself is the Pydantic library, which is not
  part of the repository's sources; only the field declarations above are. The spec
  (section 4.1) fixes its contract: a raw input mapping is checked against the declared
  shape; a missing required field or a type mismatch fails with a \<^verbatim>\<open>ValidationError\<close>
  naming the offending fields; unknown extra fields are ignored; an absent optional field
  takes its default.

  What a string annotation accepts is fixed here: \<open>Str\<close> accepts exactly the string
  values, \<open>Optional t\<close> accepts \<^verbatim>\<open>None\<close> and whatever \<open>t\<close> accepts, \<open>Any\<close> accepts
  everything, and lists and dictionaries check their elements. What the remaining scalar
  annotations (email address, boolean, float, date, date-time) accept from a request body
  is the library's business and stays a parameter \<open>chk\<close> of the model. The validated
  record keeps the accepted input values as they came.
\<close>

fun conforms :: "(ftype \<Rightarrow> val \<Rightarrow> bool) \<Rightarrow> ftype \<Rightarrow> val \<Rightarrow> bool" where
  "conforms chk Str v = (case v of VStr s \<Rightarrow> True | _ \<Rightarrow> False)"
| "conforms chk Any v = True"
| "conforms chk (Optional t) v = (v = VNone \<or> conforms chk t v)"
| "conforms chk (ListOf t) v =
     (case v of VList xs \<Rightarrow> list_all (conforms chk t) xs | _ \<Rightarrow> False)"
| "conforms chk (DictOf t) v =
     (case v of VDict kvs \<Rightarrow> list_all (conforms chk t) (map snd kvs) | _ \<Rightarrow> False)"
| "conforms chk t v = chk t v"

datatype err_type = Missing | Invalid

datatype error =
    ValidationError "(string \<times> err_type) list"
  | StorageUnavailableError
  | PersistenceError

type_synonym payload = "string \<rightharpoonup> val"

definition field_errors ::
  "(ftype \<Rightarrow> val \<Rightarrow> bool) \<Rightarrow> payload \<Rightarrow> field \<Rightarrow> (string \<times> err_type) list" where
  "field_errors chk p f =
     (case p (fname f) of
        None \<Rightarrow> (case fdefault f of Required \<Rightarrow> [(fname f, Missing)] | Default d \<Rightarrow> [])
      | Some v \<Rightarrow> (if conforms chk (ftyp f) v then [] else [(fname f, Invalid)]))"

definition field_entry :: "payload \<Rightarrow> field \<Rightarrow> (string \<times> val) list" where
  "field_entry p f =
     (case p (fname f) of
        Some v \<Rightarrow> [(fname f, v)]
      | None \<Rightarrow> (case fdefault f of Required \<Rightarrow> [] | Default d \<Rightarrow> [(fname f, d)]))"

definition errors :: "(ftype \<Rightarrow> val \<Rightarrow> bool) \<Rightarrow> kind \<Rightarrow> payload \<Rightarrow> (string \<times> err_type) list" where
  "errors chk k p = concat (map (field_errors chk p) (model_fields k))"

definition validate ::
  "(ftype \<Rightarrow> val \<Rightarrow> bool) \<Rightarrow> kind \<Rightarrow> payload \<Rightarrow> error + (string \<times> val) list" where
  "validate chk k p =
     (if errors chk k p = [] then Inr (concat (map (field_entry p) (model_fields k)))
      else Inl (ValidationError (errors chk k p)))"

text \<open>
  The fields the spec calls free-text enums: documented candidate values in the field
  description, a plain string annotation in the declaration.
\<close>

definition enum_like :: "string list" where
  "enum_like = [''status'', ''role'', ''method'', ''type'']"

section \<open>HTTP surface (main.py)\<close>

subsection \<open>Route table\<close>

text \<open>
  Every \<^verbatim>\<open>@app.get\<close> and \<^verbatim>\<open>@app.post\<close> decorator of \<^verbatim>\<open>main.py\<close>, top to bottom.
  \<open>Create k\<close> stands for a handler whose body is
  \<^verbatim>\<open>create_document(collection_name(K), payload)\<close> and \<open>ListDocs k\<close> for one whose body
  ends in \<^verbatim>\<open>get_documents(collection_name(K), ...)\<close>.
\<close>

datatype http_method = GET | POST

datatype handler = Read_root | Test_database | Get_schema | Create kind | ListDocs kind

definition routes :: "(http_method \<times> string \<times> handler) list" where
  "routes =
     [(GET, ''/'', Read_root),
      (GET, ''/test'', Test_database),
      (POST, ''/tenants'', Create Tenant), (GET, ''/tenants'', ListDocs Tenant),
      (POST, ''/users'', Create User), (GET, ''/users'', ListDocs User),
      (POST, ''/students'', Create Student), (GET, ''/students'', ListDocs Student),
      (POST, ''/classes'', Create Class), (GET, ''/classes'', ListDocs Class),
      (POST, ''/enrollments'', Create Enrollment), (GET, ''/enrollments'', ListDocs Enrollment),
      (POST, ''/attendance'', Create Attendance), (GET, ''/attendance'', ListDocs Attendance),
      (POST, ''/grades'', Create GradeRecord), (GET, ''/grades'', ListDocs GradeRecord),
      (POST, ''/invoices'', Create Invoice), (GET, ''/invoices'', ListDocs Invoice),
      (POST, ''/payments'', Create Payment), (GET, ''/payments'', ListDocs Payment),
      (POST, ''/announcements'', Create Announcement),
      (GET, ''/announcements'', ListDocs Announcement),
      (POST, ''/resources'', Create Resource), (GET, ''/resources'', ListDocs Resource),
      (POST, ''/assignments'', Create Assignment), (GET, ''/assignments'', ListDocs Assignment),
      (POST, ''/quizzes'', Create Quiz), (GET, ''/quizzes'', ListDocs Quiz),
      (POST, ''/quiz-submissions'', Create QuizSubmission),
      (GET, ''/quiz-submissions'', ListDocs QuizSubmission),
      (POST, ''/activity'', Create ActivityLog), (GET, ''/activity'', ListDocs ActivityLog),
      (GET, ''/schema'', Get_schema)]"

definition route_handlers :: "handler list" where
  "route_handlers = map (snd \<circ> snd) routes"

subsection \<open>Schema exposure (get\_schema)\<close>

text \<open>
  The dictionary literal returned by \<^verbatim>\<open>get_schema\<close>. \<open>model_json_schema\<close> is the
  library method that renders a model class as a JSON Schema object; it is a parameter.
\<close>

definition get_schema :: "(kind \<Rightarrow> 'schema) \<Rightarrow> (string \<times> 'schema) list" where
  "get_schema model_json_schema =
     [(''tenant'', model_json_schema Tenant),
      (''user'', model_json_schema User),
      (''teacher'', model_json_schema Teacher),
      (''parent'', model_json_schema Parent),
      (''student'', model_json_schema Student),
      (''class'', model_json_schema Class),
      (''enrollment'', model_json_schema Enrollment),
      (''attendance'', model_json_schema Attendance),
      (''graderecord'', model_json_schema GradeRecord),
      (''invoice'', model_json_schema Invoice),
      (''payment'', model_json_schema Payment),
      (''announcement'', model_json_schema Announcement),
      (''notification'', model_json_schema Notification),
      (''resource'', model_json_schema Resource),
      (''assignment'', model_json_schema Assignment),
      (''quiz'', model_json_schema Quiz),
      (''quizsubmission'', model_json_schema QuizSubmission),
      (''activitylog'', model_json_schema ActivityLog)]"

subsection \<open>Filters built by the list handlers\<close>

text \<open>
  Query parameters are declared \<^verbatim>\<open>Optional[str] = None\<close>: the framework binds each to
  the string given in the query string, or to \<^verbatim>\<open>None\<close> when the parameter is absent.
  A filter is a Python dictionary, kept as an association list.
\<close>

type_synonym query = "string \<rightharpoonup> string"
type_synonym filt = "(string \<times> val) list"

text \<open>Python truthiness of an \<^verbatim>\<open>Optional[str]\<close>: \<^verbatim>\<open>None\<close> and the empty string are false.\<close>

definition truthy :: "'a list option \<Rightarrow> bool" where
  "truthy v = (case v of None \<Rightarrow> False | Some s \<Rightarrow> s \<noteq> [])"

text \<open>\<^verbatim>\<open>if v: filt[k] = v\<close>\<close>

definition set_if :: "filt \<Rightarrow> string \<Rightarrow> string option \<Rightarrow> filt" where
  "set_if filt k v =
     (case v of None \<Rightarrow> filt
      | Some s \<Rightarrow> if truthy (Some s) then AList.update k (VStr s) filt else filt)"

text \<open>\<^verbatim>\<open>{k: v} if v else {}\<close>\<close>

definition dict_if :: "string \<Rightarrow> string option \<Rightarrow> filt" where
  "dict_if k v =
     (case v of None \<Rightarrow> []
      | Some s \<Rightarrow> if truthy (Some s) then [(k, VStr s)] else [])"

text \<open>
  The filter each list handler passes to \<^verbatim>\<open>get_documents\<close>, by the kind whose collection
  it reads; \<open>None\<close> for a kind that has no list handler. \<^verbatim>\<open>list_tenants\<close> passes no
  filter at all, which is the empty filter.
\<close>

fun list_filter :: "kind \<Rightarrow> query \<Rightarrow> filt option" where
  "list_filter Tenant q = Some []"
| "list_filter User q = Some (dict_if ''tenant_id'' (q ''tenant_id''))"
| "list_filter Student q =
     Some (set_if (set_if [] ''tenant_id'' (q ''tenant_id''))
             ''grade_level'' (q ''grade_level''))"
| "list_filter Class q = Some (dict_if ''tenant_id'' (q ''tenant_id''))"
| "list_filter Enrollment q =
     Some (set_if (set_if (set_if [] ''tenant_id'' (q ''tenant_id''))
             ''class_id'' (q ''class_id''))
             ''student_id'' (q ''student_id''))"
| "list_filter Attendance q =
     Some (set_if (set_if (set_if (set_if [] ''tenant_id'' (q ''tenant_id''))
             ''class_id'' (q ''class_id''))
             ''student_id'' (q ''student_id''))
             ''date'' (q ''date''))"
| "list_filter GradeRecord q =
     Some (set_if (set_if (set_if (set_if [] ''tenant_id'' (q ''tenant_id''))
             ''student_id'' (q ''student_id''))
             ''class_id'' (q ''class_id''))
             ''term'' (q ''term''))"
| "list_filter Invoice q =
     Some (set_if (set_if (set_if [] ''tenant_id'' (q ''tenant_id''))
             ''student_id'' (q ''student_id''))
             ''status'' (q ''status''))"
| "list_filter Payment q =
     Some (set_if (set_if (set_if [] ''tenant_id'' (q ''tenant_id''))
             ''invoice_id'' (q ''invoice_id''))
             ''status'' (q ''status''))"
| "list_filter Announcement q = Some (dict_if ''tenant_id'' (q ''tenant_id''))"
| "list_filter Resource q =
     Some (set_if (set_if (set_if [] ''tenant_id'' (q ''tenant_id''))
             ''subject'' (q ''subject''))
             ''grade_level'' (q ''grade_level''))"
| "list_filter Assignment q =
     Some (set_if (set_if [] ''tenant_id'' (q ''tenant_id''))
             ''class_id'' (q ''class_id''))"
| "list_filter Quiz q =
     Some (set_if (set_if [] ''tenant_id'' (q ''tenant_id''))
             ''class_id'' (q ''class_id''))"
| "list_filter QuizSubmission q =
     Some (set_if (set_if (set_if [] ''tenant_id'' (q ''tenant_id''))
             ''quiz_id'' (q ''quiz_id''))
             ''student_id'' (q ''student_id''))"
| "list_filter ActivityLog q =
     Some (set_if (set_if (set_if [] ''tenant_id'' (q ''tenant_id''))
             ''user_id'' (q ''user_id''))
             ''action'' (q ''action''))"
| "list_filter k q = None"

section \<open>Document store gateway\<close>

text \<open>
  A stored document: the identifier the store issued for it (in printed form) and the
  fields that were inserted. The store is MongoDB (\<^verbatim>\<open>schemas.py\<close>: each model is a
  MongoDB collection), whose native representation of a document carries the identifier
  in the field \<^verbatim>\<open>_id\<close>.
\<close>

record document =
  ident :: string
  body :: "string \<rightharpoonup> val"

definition native :: "document \<Rightarrow> (string \<rightharpoonup> val)" where
  "native d = (body d)(''_id'' \<mapsto> VOid (ident d))"

text \<open>
  The process-wide handle \<^verbatim>\<open>db\<close> that \<^verbatim>\<open>main.py\<close> imports from the database module,
  as far as \<^verbatim>\<open>main.py\<close> and the gateway use it. Strings that may hold arbitrary Unicode
  text (exception messages, the status texts of the diagnostic endpoint) are sequences
  of code points, so that slicing counts what Python counts.
  \<^item> \<open>name_attr\<close>: looking up the attribute \<^verbatim>\<open>name\<close>: it is missing (\<open>Inr None\<close>),
    has a value, or the lookup raises (\<open>Inl\<close>);
  \<^item> \<open>list_collection_names\<close>: the result of the call of that name, or what it
    raises;
  \<^item> \<open>docs\<close>: the documents of each collection, in the store's default order.

  What is raised has a class and a message (\<^verbatim>\<open>str(e)\<close>). For the \<^verbatim>\<open>except\<close> clauses
  of \<^verbatim>\<open>main.py\<close> only one thing about the class matters: whether it is \<^verbatim>\<open>Exception\<close>
  or a subclass of it, as the errors of a store driver are, or derives from
  \<^verbatim>\<open>BaseException\<close> only, as \<^verbatim>\<open>KeyboardInterrupt\<close> and \<^verbatim>\<open>SystemExit\<close> do.
\<close>

type_synonym pystr = "nat list"

datatype exc_class = ExceptionInstance | BaseExceptionOnly

datatype raised = Raised (exc_class: exc_class) (exc_msg: pystr)

record db_handle =
  name_attr :: "raised + pystr option"
  list_collection_names :: "raised + string list"
  docs :: "string \<Rightarrow> document list"

text \<open>
  Modelled from the spec: \<^verbatim>\<open>get_documents\<close> lives in the database module, which is not
  among the sources. Spec section 4.2: the filter maps field names to expected values and
  matches by equality only; an empty filter matches every document; each returned record
  has the store's internal identifier field renamed to a public string field \<^verbatim>\<open>id\<close>
  and the internal field removed; without a store connection the call fails with
  \<^verbatim>\<open>StorageUnavailableError\<close>. Spec section 8 states the equality on the record that is
  returned, so the filter is a test on the record in its public shape.
\<close>

definition public :: "document \<Rightarrow> (string \<rightharpoonup> val)" where
  "public d = ((native d)(''_id'' := None))(''id'' \<mapsto> VStr (ident d))"

definition matches :: "filt \<Rightarrow> document \<Rightarrow> bool" where
  "matches F d = list_all (\<lambda>k. public d k = map_of F k) (map fst F)"

definition get_documents ::
  "db_handle option \<Rightarrow> string \<Rightarrow> filt \<Rightarrow> error + (string \<rightharpoonup> val) list" where
  "get_documents db collection F =
     (case db of
        None \<Rightarrow> Inl StorageUnavailableError
      | Some h \<Rightarrow> Inr (map public (filter (matches F) (docs h collection))))"

text \<open>
  A list handler: \<^verbatim>\<open>return get_documents(collection_name(K), filt)\<close>. \<open>None\<close> when the
  kind has no list handler.
\<close>

definition list_handler ::
  "db_handle option \<Rightarrow> kind \<Rightarrow> query \<Rightarrow> (error + (string \<rightharpoonup> val) list) option" where
  "list_handler db k q =
     map_option (get_documents db (collection_name k)) (list_filter k q)"

section \<open>Diagnostic endpoint (main.py, test\_database)\<close>

definition ascii :: "string \<Rightarrow> pystr" where
  "ascii s = map of_char s"

text \<open>
  The three pictographs of the status texts, by code point: U+2705 (check mark),
  U+274C (cross mark), and U+26A0 followed by the variation selector U+FE0F (warning
  sign).
\<close>

definition check_mark :: pystr where "check_mark = [0x2705]"
definition cross_mark :: pystr where "cross_mark = [0x274C]"
definition warning_sign :: pystr where "warning_sign = [0x26A0, 0xFE0F]"

record response =
  backend :: pystr
  database :: pystr
  database_url :: "pystr option"
  database_name :: "pystr option"
  connection_status :: pystr
  collections :: "string list"

definition initial_response :: response where
  "initial_response =
     \<lparr> backend = check_mark @ ascii '' Running'',
       database = cross_mark @ ascii '' Not Available'',
       database_url = None,
       database_name = None,
       connection_status = ascii ''Not Connected'',
       collections = [] \<rparr>"

text \<open>What \<^verbatim>\<open>os.getenv\<close> returns for the two variables the handler reads.\<close>

record env =
  DATABASE_URL :: "pystr option"
  DATABASE_NAME :: "pystr option"

text \<open>
  A block of statements working on the response dictionary either runs to its end or
  raises, and in both cases leaves the dictionary as the statements executed so far made
  it. \<open>try_except\<close> is \<^verbatim>\<open>try: ... except Exception as e: ...\<close>: the handler runs, on
  the message, when what was raised is an instance of \<^verbatim>\<open>Exception\<close>; anything else
  passes through the statement and goes on propagating.
\<close>

type_synonym block = "response \<Rightarrow> raised option \<times> response"

definition try_except :: "block \<Rightarrow> (pystr \<Rightarrow> block) \<Rightarrow> block" where
  "try_except blk hnd r =
     (case blk r of
        (None, r') \<Rightarrow> (None, r')
      | (Some x, r') \<Rightarrow>
          (if exc_class x = ExceptionInstance then hnd (exc_msg x) r' else (Some x, r')))"

text \<open>Lines 47 to 52: the inner \<^verbatim>\<open>try\<close> around the store introspection.\<close>

definition introspect :: "db_handle \<Rightarrow> block" where
  "introspect h r =
     (case list_collection_names h of
        Inl e \<Rightarrow> (Some e, r)
      | Inr cs \<Rightarrow>
          (None, r\<lparr> collections := take 20 cs,
                    database := check_mark @ ascii '' Connected & Working'' \<rparr>))"

definition introspect_failed :: "pystr \<Rightarrow> block" where
  "introspect_failed e r =
     (None, r\<lparr> database := warning_sign @ ascii ''  Connected but Error: '' @ take 50 e \<rparr>)"

text \<open>Lines 42 to 54: the body of the outer \<^verbatim>\<open>try\<close>.\<close>

definition outer_body :: "db_handle option \<Rightarrow> block" where
  "outer_body db r =
     (case db of
        None \<Rightarrow>
          (None, r\<lparr> database := warning_sign @ ascii ''  Available but not initialized'' \<rparr>)
      | Some h \<Rightarrow>
          (let r1 = r\<lparr> database := check_mark @ ascii '' Available'',
                       database_url := Some (check_mark @ ascii '' Configured'') \<rparr>
           in case name_attr h of
                Inl e \<Rightarrow> (Some e, r1)
              | Inr a \<Rightarrow>
                  try_except (introspect h) introspect_failed
                    (r1\<lparr> database_name :=
                           Some (case a of Some n \<Rightarrow> n
                                 | None \<Rightarrow> check_mark @ ascii '' Connected''),
                         connection_status := ascii ''Connected'' \<rparr>)))"

definition outer_failed :: "pystr \<Rightarrow> block" where
  "outer_failed e r = (None, r\<lparr> database := cross_mark @ ascii '' Error: '' @ take 50 e \<rparr>)"

definition env_flag :: "pystr option \<Rightarrow> pystr" where
  "env_flag v = (if truthy v then check_mark @ ascii '' Set'' else cross_mark @ ascii '' Not Set'')"

text \<open>
  The handler. \<open>Inl\<close> is an exception that leaves the handler; \<open>Inr\<close> is the returned
  dictionary.
\<close>

definition test_database :: "db_handle option \<Rightarrow> env \<Rightarrow> raised + response" where
  "test_database db ev =
     (case try_except (outer_body db) outer_failed initial_response of
        (Some e, r) \<Rightarrow> Inl e
      | (None, r) \<Rightarrow>
          Inr (r\<lparr> database_url := Some (env_flag (DATABASE_URL ev)),
                   database_name := Some (env_flag (DATABASE_NAME ev)) \<rparr>))"

text \<open>
  The framework answers 200 with the returned value, and 500 when an exception leaves
  the handler.
\<close>

definition http_status :: "raised + 'a \<Rightarrow> nat" where
  "http_status res = (case res of Inl e \<Rightarrow> 500 | Inr v \<Rightarrow> 200)"

text \<open>
  The failures of a store handle are exceptions in the narrow sense: whatever the
  attribute lookup or the listing of collections raises is an instance of
  \<^verbatim>\<open>Exception\<close>. No handle at all has nothing to raise.
\<close>

definition store_raises_exceptions :: "db_handle option \<Rightarrow> bool" where
  "store_raises_exceptions db =
     (case db of
        None \<Rightarrow> True
      | Some h \<Rightarrow>
          (case name_attr h of Inl x \<Rightarrow> exc_class x = ExceptionInstance | Inr a \<Rightarrow> True)
          \<and> (case list_collection_names h of
                Inl x \<Rightarrow> exc_class x = ExceptionInstance
              | Inr cs \<Rightarrow> True))"

text \<open>A kind has a dedicated route when some route creates or lists its documents.\<close>

definition has_route :: "kind \<Rightarrow> bool" where
  "has_route k = (Create k \<in> set route_handlers \<or> ListDocs k \<in> set route_handlers)"

section \<open>Concrete inputs\<close>

text \<open>
  A request body for \<^verbatim>\<open>POST /students\<close> that leaves out \<^verbatim>\<open>student_number\<close>, and one
  for \<^verbatim>\<open>POST /attendance\<close> that leaves out \<^verbatim>\<open>status\<close>.
\<close>

definition student_payload :: payload where
  "student_payload =
     [''tenant_id'' \<mapsto> VStr ''t1'', ''first_name'' \<mapsto> VStr ''Ann'',
      ''last_name'' \<mapsto> VStr ''Lee'', ''grade_level'' \<mapsto> VStr ''5'']"

definition attendance_payload :: payload where
  "attendance_payload =
     [''tenant_id'' \<mapsto> VStr ''t1'', ''class_id'' \<mapsto> VStr ''c1'',
      ''student_id'' \<mapsto> VStr ''s1'', ''date'' \<mapsto> VStr ''2024-01-31'']"

text \<open>
  One possible reading of the library's scalar checks, used to run the validator on the
  bodies above: a string is taken for any scalar annotation, a number for a float, a
  boolean for a boolean.
\<close>

definition accept_scalars :: "ftype \<Rightarrow> val \<Rightarrow> bool" where
  "accept_scalars t v =
     (case v of VStr s \<Rightarrow> True | VNum x \<Rightarrow> t = Float | VBool b \<Rightarrow> t = Bool | _ \<Rightarrow> False)"

text \<open>
  A store whose \<^verbatim>\<open>student\<close> collection holds two students, of two tenants.
\<close>

definition example_doc :: document where
  "example_doc =
     \<lparr> ident = ''a1'',
       body = [''tenant_id'' \<mapsto> VStr ''t1'', ''grade_level'' \<mapsto> VStr ''5''] \<rparr>"

definition example_doc_other :: document where
  "example_doc_other =
     \<lparr> ident = ''a2'',
       body = [''tenant_id'' \<mapsto> VStr ''t2'', ''grade_level'' \<mapsto> VStr ''5''] \<rparr>"

definition example_db :: db_handle where
  "example_db =
     \<lparr> name_attr = Inr (Some (ascii ''edmin'')),
       list_collection_names = Inr [''student''],
       docs = (\<lambda>c. if c = ''student'' then [example_doc, example_doc_other] else []) \<rparr>"

text \<open>
  A handle to a store that cannot be reached: listing the collections raises a driver
  error, an instance of \<^verbatim>\<open>Exception\<close>, with a message of 74 characters. And a handle
  whose listing is interrupted by something that is not an \<^verbatim>\<open>Exception\<close>.
\<close>

definition unreachable_db :: db_handle where
  "unreachable_db =
     \<lparr> name_attr = Inr (Some (ascii ''edmin'')),
       list_collection_names =
         Inl (Raised ExceptionInstance
               (ascii ''localhost:27017: [Errno 111] Connection refused (configured timeouts: 30s)'')),
       docs = (\<lambda>c. []) \<rparr>"

definition interrupted_db :: db_handle where
  "interrupted_db =
     \<lparr> name_attr = Inr (Some (ascii ''edmin'')),
       list_collection_names = Inl (Raised BaseExceptionOnly (ascii ''interrupted'')),
       docs = (\<lambda>c. []) \<rparr>"

text \<open>
  Two environments in which \<^verbatim>\<open>DATABASE_URL\<close> is set: to the empty string in the
  first, to a connection string in the second.
\<close>

definition env_empty_url :: env where
  "env_empty_url = \<lparr> DATABASE_URL = Some [], DATABASE_NAME = None \<rparr>"

definition env_filled_url :: env where
  "env_filled_url = \<lparr> DATABASE_URL = Some (ascii ''mongodb://db''), DATABASE_NAME = None \<rparr>"

text \<open>
  The diagnostic objects for the second environment: without a handle, and with the
  handle to the unreachable store.
\<close>

definition response_no_store :: response where
  "response_no_store =
     \<lparr> backend = check_mark @ ascii '' Running'',
       database = warning_sign @ ascii ''  Available but not initialized'',
       database_url = Some (check_mark @ ascii '' Set''),
       database_name = Some (cross_mark @ ascii '' Not Set''),
       connection_status = ascii ''Not Connected'',
       collections = [] \<rparr>"

definition response_unreachable :: response where
  "response_unreachable =
     \<lparr> backend = check_mark @ ascii '' Running'',
       database =
         warning_sign @ ascii ''  Connected but Error: ''
           @ ascii ''localhost:27017: [Errno 111] Connection refused (c'',
       database_url = Some (check_mark @ ascii '' Set''),
       database_name = Some (cross_mark @ ascii '' Not Set''),
       connection_status = ascii ''Connected'',
       collections = [] \<rparr>"

section \<open>Properties of the registry and the route table\<close>

lemma collection_name_table:
  "collection_name Tenant = ''tenant''"
  "collection_name User = ''user''"
  "collection_name Teacher = ''teacher''"
  "collection_name Parent = ''parent''"
  "collection_name Student = ''student''"
  "collection_name Class = ''class''"
  "collection_name Enrollment = ''enrollment''"
  "collection_name Attendance = ''attendance''"
  "collection_name GradeRecord = ''graderecord''"
  "collection_name Invoice = ''invoice''"
  "collection_name Payment = ''payment''"
  "collection_name Announcement = ''announcement''"
  "collection_name Notification = ''notification''"
  "collection_name Resource = ''resource''"
  "collection_name Assignment = ''assignment''"
  "collection_name Quiz = ''quiz''"
  "collection_name QuizSubmission = ''quizsubmission''"
  "collection_name ActivityLog = ''activitylog''"
  by code_simp+

lemma all_kinds_complete: "set all_kinds = UNIV"
proof -
  have "k \<in> set all_kinds" for k
    by (cases k) (simp_all add: all_kinds_def)
  then show ?thesis by auto
qed

lemma all_kinds_distinct: "distinct all_kinds"
  by (simp add: all_kinds_def)

text \<open>
  C4: the collection name of a kind is the lowercase of its class name, with nothing
  appended (the eighteen names are listed), and no two kinds share a collection name.
\<close>

theorem collection_name_injective:
  "collection_name k = lower (class_name k)
   \<and> map collection_name all_kinds =
       [''tenant'', ''user'', ''teacher'', ''parent'', ''student'', ''class'', ''enrollment'',
        ''attendance'', ''graderecord'', ''invoice'', ''payment'', ''announcement'',
        ''notification'', ''resource'', ''assignment'', ''quiz'', ''quizsubmission'',
        ''activitylog'']
   \<and> (collection_name k = collection_name k') = (k = k')"
proof -
  have a: "collection_name k = lower (class_name k)"
    by (simp add: collection_name_def)
  have b: "map collection_name all_kinds =
       [''tenant'', ''user'', ''teacher'', ''parent'', ''student'', ''class'', ''enrollment'',
        ''attendance'', ''graderecord'', ''invoice'', ''payment'', ''announcement'',
        ''notification'', ''resource'', ''assignment'', ''quiz'', ''quizsubmission'',
        ''activitylog'']"
    by (simp add: all_kinds_def collection_name_table)
  have c: "(collection_name k = collection_name k') = (k = k')"
    by (cases k; cases k'; simp add: collection_name_table)
  from a b c show ?thesis by blast
qed

text \<open>
  C3: the dictionary returned by \<^verbatim>\<open>get_schema\<close> has exactly eighteen keys, all
  different; they are the collection names of the eighteen kinds, in declaration order,
  and the key of each kind is bound to the JSON Schema of that kind.
\<close>

theorem get_schema_keys:
  "length (get_schema js) = 18
   \<and> distinct (map fst (get_schema js))
   \<and> map fst (get_schema js) = map collection_name all_kinds
   \<and> map snd (get_schema js) = map js all_kinds
   \<and> set all_kinds = UNIV \<and> distinct all_kinds \<and> length all_kinds = 18
   \<and> map_of (get_schema js) (collection_name k) = Some (js k)"
proof -
  have a: "length (get_schema js) = 18"
    by (simp add: get_schema_def)
  have b: "distinct (map fst (get_schema js))"
    by (simp add: get_schema_def)
  have c: "map fst (get_schema js) = map collection_name all_kinds"
    by (simp add: get_schema_def all_kinds_def collection_name_table)
  have d: "map snd (get_schema js) = map js all_kinds"
    by (simp add: get_schema_def all_kinds_def)
  have e: "length all_kinds = 18"
    by (simp add: all_kinds_def)
  have f: "map_of (get_schema js) (collection_name k) = Some (js k)"
    by (cases k) (simp_all add: get_schema_def collection_name_table)
  from a b c d e f all_kinds_complete all_kinds_distinct show ?thesis by blast
qed

text \<open>
  C5: a kind declares the field \<^verbatim>\<open>tenant_id\<close> exactly when it is not \<open>Tenant\<close>.
\<close>

theorem tenant_id_declared:
  "(''tenant_id'' \<in> set (field_names k)) = (k \<noteq> Tenant)"
  by (cases k) (simp_all add: field_names_def)

text \<open>
  C8: Teacher, Parent and Notification are registered kinds and \<^verbatim>\<open>get_schema\<close> exposes
  each under its key, but no route creates or lists documents of any of the three; they
  are the only kinds without a dedicated route.
\<close>

theorem unrouted_kinds:
  "map_of (get_schema js) ''teacher'' = Some (js Teacher)
   \<and> map_of (get_schema js) ''parent'' = Some (js Parent)
   \<and> map_of (get_schema js) ''notification'' = Some (js Notification)
   \<and> Teacher \<in> set all_kinds \<and> Parent \<in> set all_kinds \<and> Notification \<in> set all_kinds
   \<and> Create Teacher \<notin> set route_handlers \<and> ListDocs Teacher \<notin> set route_handlers
   \<and> Create Parent \<notin> set route_handlers \<and> ListDocs Parent \<notin> set route_handlers
   \<and> Create Notification \<notin> set route_handlers \<and> ListDocs Notification \<notin> set route_handlers
   \<and> filter (\<lambda>k. \<not> has_route k) all_kinds = [Teacher, Parent, Notification]"
proof -
  have a: "map_of (get_schema js) ''teacher'' = Some (js Teacher)"
          "map_of (get_schema js) ''parent'' = Some (js Parent)"
          "map_of (get_schema js) ''notification'' = Some (js Notification)"
    by (simp_all add: get_schema_def)
  have b: "Teacher \<in> set all_kinds" "Parent \<in> set all_kinds" "Notification \<in> set all_kinds"
    by (simp_all add: all_kinds_def)
  have c: "Create Teacher \<notin> set route_handlers" "ListDocs Teacher \<notin> set route_handlers"
          "Create Parent \<notin> set route_handlers" "ListDocs Parent \<notin> set route_handlers"
          "Create Notification \<notin> set route_handlers"
          "ListDocs Notification \<notin> set route_handlers"
    by (simp_all add: route_handlers_def routes_def)
  have d: "filter (\<lambda>k. \<not> has_route k) all_kinds = [Teacher, Parent, Notification]"
    by (simp add: has_route_def route_handlers_def routes_def all_kinds_def)
  from a b c d show ?thesis by blast
qed

section \<open>Properties of the list handlers\<close>

lemma set_if_empty: "set_if f k (Some []) = set_if f k None"
  by (simp add: set_if_def truthy_def)

lemma dict_if_empty: "dict_if k (Some []) = dict_if k None"
  by (simp add: dict_if_def truthy_def)

text \<open>
  C9: for every list handler and every query parameter, binding the parameter to the
  empty string builds the same filter, and so gives the same answer, as leaving the
  parameter out. In particular \<^verbatim>\<open>GET /students\<close> with an empty \<^verbatim>\<open>grade_level\<close> and
  nothing else queries with the empty filter and returns every student.
\<close>

theorem empty_param_as_absent:
  "list_filter k (q(p \<mapsto> [])) = list_filter k (q(p := None))
   \<and> list_handler db k (q(p \<mapsto> [])) = list_handler db k (q(p := None))
   \<and> list_filter Student (Map.empty(''grade_level'' \<mapsto> [])) = Some []
   \<and> list_handler (Some h) Student (Map.empty(''grade_level'' \<mapsto> []))
        = Some (Inr (map public (docs h ''student'')))"
proof -
  have a: "list_filter k (q(p \<mapsto> [])) = list_filter k (q(p := None))"
    by (cases k) (simp_all add: set_if_empty dict_if_empty)
  have b: "list_handler db k (q(p \<mapsto> [])) = list_handler db k (q(p := None))"
    by (simp add: list_handler_def a)
  have c: "list_filter Student (Map.empty(''grade_level'' \<mapsto> [])) = Some []"
    by (simp add: set_if_def truthy_def)
  have d: "list_handler (Some h) Student (Map.empty(''grade_level'' \<mapsto> []))
        = Some (Inr (map public (docs h ''student'')))"
    unfolding list_handler_def c
    by (simp add: get_documents_def matches_def collection_name_table)
  from a b c d show ?thesis by blast
qed

section \<open>Properties of request validation\<close>

lemma field_errors_name: "(a, e) \<in> set (field_errors chk p f) \<Longrightarrow> a = fname f"
  by (auto simp: field_errors_def split: option.splits default.splits if_splits)

lemma errors_member:
  "(a, e) \<in> set (errors chk k p)
     = (\<exists>f \<in> set (model_fields k). (a, e) \<in> set (field_errors chk p f))"
  by (auto simp: errors_def)

lemma errors_empty:
  "(errors chk k p = []) = (\<forall>f \<in> set (model_fields k). field_errors chk p f = [])"
  by (auto simp: errors_def)

lemma every_kind_has_required: "\<exists>f \<in> set (model_fields k). fdefault f = Required"
  by (cases k) simp_all

text \<open>
  C2: for every kind and every field it declares without a default, validating an input
  mapping that has no entry for that field yields no record: it fails with a
  \<^verbatim>\<open>ValidationError\<close> whose error list names the field as missing.
\<close>

theorem missing_required_field:
  assumes "f \<in> set (model_fields k)" and "fdefault f = Required" and "p (fname f) = None"
  shows "validate chk k p = Inl (ValidationError (errors chk k p))
         \<and> (fname f, Missing) \<in> set (errors chk k p)"
proof -
  from assms(2,3) have "(fname f, Missing) \<in> set (field_errors chk p f)"
    by (simp add: field_errors_def)
  with assms(1) have m: "(fname f, Missing) \<in> set (errors chk k p)"
    unfolding errors_member by blast
  then have "errors chk k p \<noteq> []" by auto
  then have "validate chk k p = Inl (ValidationError (errors chk k p))"
    by (simp add: validate_def)
  with m show ?thesis by simp
qed

theorem missing_required_field_witness:
  "req ''student_number'' Str \<in> set (model_fields Student)
   \<and> fdefault (req ''student_number'' Str) = Required
   \<and> student_payload (fname (req ''student_number'' Str)) = None
   \<and> validate (\<lambda>t v. False) Student student_payload
       = Inl (ValidationError [(''student_number'', Missing)])"
proof -
  have h1: "req ''student_number'' Str \<in> set (model_fields Student)" by simp
  have h2: "fdefault (req ''student_number'' Str) = Required" by simp
  have h3: "student_payload (fname (req ''student_number'' Str)) = None"
    by (simp add: student_payload_def)
  have e: "errors (\<lambda>t v. False) Student student_payload = [(''student_number'', Missing)]"
    by (simp add: errors_def field_errors_def student_payload_def)
  from missing_required_field
         [where f = "req ''student_number'' Str" and k = Student and p = student_payload
            and chk = "\<lambda>t v. False"]
       h1 h2 h3 e
  show ?thesis by simp
qed

lemma enum_like_str:
  "f \<in> set (model_fields k) \<Longrightarrow> fname f \<in> set enum_like
     \<Longrightarrow> ftyp f = Str \<or> ftyp f = Optional Str"
  by (cases k) (auto simp: enum_like_def)

lemma field_entry_set:
  "(a, v) \<in> set (field_entry p f) \<Longrightarrow> a = fname f \<and> (p a = Some v \<or> p a = None)"
  by (auto simp: field_entry_def split: option.splits default.splits)

text \<open>
  C7: let \<open>n\<close> be one of \<^verbatim>\<open>status\<close>, \<^verbatim>\<open>role\<close>, \<^verbatim>\<open>method\<close>, \<^verbatim>\<open>type\<close>, declared by
  kind \<open>k\<close>, and let the payload be valid apart from that field (its validation errors, if
  any, name only \<open>n\<close>). Then the payload with any string at all put in for \<open>n\<close>
  validates, and the record holds that string.
\<close>

theorem enum_like_accepts_any_string:
  assumes n: "n \<in> set enum_like" and d: "n \<in> set (field_names k)"
      and ok: "fst ` set (errors chk k p) \<subseteq> {n}"
  shows "validate chk k (p(n \<mapsto> VStr s))
           = Inr (concat (map (field_entry (p(n \<mapsto> VStr s))) (model_fields k)))
         \<and> map_of (concat (map (field_entry (p(n \<mapsto> VStr s))) (model_fields k))) n
             = Some (VStr s)"
proof -
  let ?p = "p(n \<mapsto> VStr s)"
  let ?r = "concat (map (field_entry ?p) (model_fields k))"
  have "field_errors chk ?p f = []" if f: "f \<in> set (model_fields k)" for f
  proof (cases "fname f = n")
    case True
    with f n have "ftyp f = Str \<or> ftyp f = Optional Str" using enum_like_str by blast
    then have "conforms chk (ftyp f) (VStr s)" by auto
    with True show ?thesis by (simp add: field_errors_def)
  next
    case False
    have "field_errors chk p f = []"
    proof (rule ccontr)
      assume "field_errors chk p f \<noteq> []"
      then obtain a e where ae: "(a, e) \<in> set (field_errors chk p f)"
        by (cases "field_errors chk p f") auto
      then have "a = fname f" by (rule field_errors_name)
      moreover from ae f have "(a, e) \<in> set (errors chk k p)"
        unfolding errors_member by blast
      then have "a = n" using ok by force
      ultimately show False using False by simp
    qed
    with False show ?thesis by (simp add: field_errors_def)
  qed
  then have "errors chk k ?p = []" unfolding errors_empty by blast
  then have v: "validate chk k ?p = Inr ?r" by (simp add: validate_def)
  from d obtain f where f: "f \<in> set (model_fields k)" "fname f = n"
    by (auto simp: field_names_def)
  then have "(n, VStr s) \<in> set (field_entry ?p f)" by (simp add: field_entry_def)
  with f have "(n, VStr s) \<in> set ?r" by auto
  then have "n \<in> fst ` set ?r" by force
  then obtain v' where v': "map_of ?r n = Some v'"
    by (cases "map_of ?r n") (auto simp: map_of_eq_None_iff)
  then have "(n, v') \<in> set ?r" by (rule map_of_SomeD)
  then obtain g where g: "(n, v') \<in> set (field_entry ?p g)" by auto
  have "?p n = Some v' \<or> ?p n = None"
    using field_entry_set [OF g] by simp
  then have "v' = VStr s" by simp
  with v v' show ?thesis by simp
qed

theorem enum_like_accepts_any_string_witness:
  "''status'' \<in> set enum_like \<and> ''status'' \<in> set (field_names Attendance)
   \<and> fst ` set (errors accept_scalars Attendance attendance_payload) \<subseteq> {''status''}
   \<and> validate accept_scalars Attendance (attendance_payload(''status'' \<mapsto> VStr ''on holiday''))
       = Inr [(''tenant_id'', VStr ''t1''), (''class_id'', VStr ''c1''),
              (''student_id'', VStr ''s1''), (''date'', VStr ''2024-01-31''),
              (''status'', VStr ''on holiday''), (''method'', VNone)]"
proof -
  have h1: "''status'' \<in> set enum_like" by (simp add: enum_like_def)
  have h2: "''status'' \<in> set (field_names Attendance)" by (simp add: field_names_def)
  have e: "errors accept_scalars Attendance attendance_payload = [(''status'', Missing)]"
    by (simp add: errors_def field_errors_def attendance_payload_def accept_scalars_def)
  have h3: "fst ` set (errors accept_scalars Attendance attendance_payload) \<subseteq> {''status''}"
    by (simp add: e)
  have r: "concat (map (field_entry (attendance_payload(''status'' \<mapsto> VStr ''on holiday'')))
             (model_fields Attendance))
       = [(''tenant_id'', VStr ''t1''), (''class_id'', VStr ''c1''),
          (''student_id'', VStr ''s1''), (''date'', VStr ''2024-01-31''),
          (''status'', VStr ''on holiday''), (''method'', VNone)]"
    by (simp add: field_entry_def attendance_payload_def)
  from enum_like_accepts_any_string
         [where n = "''status''" and k = Attendance and chk = accept_scalars
            and p = attendance_payload and s = "''on holiday''"]
       h1 h2 h3 r
  show ?thesis by simp
qed

section \<open>Properties of the gateway\<close>

lemma matches_key:
  assumes "matches F d" and "map_of F k = Some v"
  shows "public d k = Some v"
proof -
  from assms(2) have "k \<in> set (map fst F)"
    by (metis map_of_eq_None_iff option.distinct(1) set_map)
  with assms(1) have "public d k = map_of F k"
    by (auto simp: matches_def list_all_iff)
  with assms(2) show ?thesis by simp
qed

lemma get_documents_agree:
  assumes "get_documents db c F = Inr rs" and "r \<in> set rs" and "map_of F k = Some v"
  shows "r k = Some v"
proof -
  from assms(1) obtain g
    where g: "db = Some g" "rs = map public (filter (matches F) (docs g c))"
    by (auto simp: get_documents_def split: option.splits)
  with assms(2) obtain d where d: "r = public d" "matches F d" by auto
  from d(2) assms(3) have "public d k = Some v" by (rule matches_key)
  with d(1) show ?thesis by simp
qed

lemma get_documents_empty_filter:
  "get_documents (Some h) c [] = Inr (map public (docs h c))"
  by (simp add: get_documents_def matches_def)

text \<open>
  The same for the filters \<^verbatim>\<open>main.py\<close> builds: every record a list handler returns
  agrees with the filter the handler built from the query parameters.
\<close>

lemma list_handler_agree:
  assumes "list_handler db kd q = Some (Inr rs)" and "r \<in> set rs"
      and "list_filter kd q = Some F" and "map_of F k = Some v"
  shows "r k = Some v"
proof -
  from assms(1,3) have "get_documents db (collection_name kd) F = Inr rs"
    by (simp add: list_handler_def)
  then show ?thesis using assms(2,4) by (rule get_documents_agree)
qed

text \<open>
  C1: every record returned by \<^verbatim>\<open>get_documents\<close> for a collection and a filter \<open>F\<close>
  has, at every key of \<open>F\<close>, the value \<open>F\<close> has there; and the empty filter returns
  every document of the collection.
\<close>

theorem get_documents_exact_match:
  assumes "get_documents db c F = Inr rs" and "r \<in> set rs" and "map_of F k = Some v"
  shows "r k = Some v \<and> get_documents (Some h) c [] = Inr (map public (docs h c))"
  using get_documents_agree [OF assms] get_documents_empty_filter by simp

theorem get_documents_exact_match_witness:
  "get_documents (Some example_db) ''student'' [(''tenant_id'', VStr ''t1'')]
     = Inr [public example_doc]
   \<and> public example_doc \<in> set [public example_doc]
   \<and> map_of [(''tenant_id'', VStr ''t1'')] ''tenant_id'' = Some (VStr ''t1'')
   \<and> public example_doc ''tenant_id'' = Some (VStr ''t1'')
   \<and> get_documents (Some example_db) ''student'' []
       = Inr [public example_doc, public example_doc_other]"
proof -
  have h1: "get_documents (Some example_db) ''student'' [(''tenant_id'', VStr ''t1'')]
     = Inr [public example_doc]"
    by (simp add: get_documents_def example_db_def matches_def native_def public_def
          example_doc_def example_doc_other_def)
  have h2: "public example_doc \<in> set [public example_doc]" by simp
  have h3: "map_of [(''tenant_id'', VStr ''t1'')] ''tenant_id'' = Some (VStr ''t1'')" by simp
  have d: "docs example_db ''student'' = [example_doc, example_doc_other]"
    by (simp add: example_db_def)
  from get_documents_exact_match
         [where db = "Some example_db" and c = "''student''"
            and F = "[(''tenant_id'', VStr ''t1'')]" and rs = "[public example_doc]"
            and r = "public example_doc" and k = "''tenant_id''" and v = "VStr ''t1''"
            and h = example_db]
       h1 h2 h3 d
  show ?thesis by simp
qed

section \<open>Properties of the diagnostic endpoint\<close>

text \<open>What the handler returns carries the two flags computed from the environment.\<close>

lemma test_database_flags:
  assumes "test_database db ev = Inr r"
  shows "database_url r = Some (env_flag (DATABASE_URL ev))
         \<and> database_name r = Some (env_flag (DATABASE_NAME ev))"
  using assms by (auto simp: test_database_def split: prod.splits option.splits)

text \<open>
  When the failures of the handle are instances of \<^verbatim>\<open>Exception\<close>, one of the two
  \<^verbatim>\<open>except\<close> clauses catches each of them and the handler returns.
\<close>

lemma test_database_returns:
  assumes "store_raises_exceptions db"
  shows "\<exists>r. test_database db ev = Inr r
           \<and> database r =
              (case db of
                 None \<Rightarrow> warning_sign @ ascii ''  Available but not initialized''
               | Some h \<Rightarrow>
                   (case name_attr h of
                      Inl x \<Rightarrow> cross_mark @ ascii '' Error: '' @ take 50 (exc_msg x)
                    | Inr a \<Rightarrow>
                        (case list_collection_names h of
                           Inl x \<Rightarrow>
                             warning_sign @ ascii ''  Connected but Error: ''
                               @ take 50 (exc_msg x)
                         | Inr cs \<Rightarrow> check_mark @ ascii '' Connected & Working'')))"
  using assms
  by (auto simp: store_raises_exceptions_def test_database_def try_except_def
        outer_body_def outer_failed_def introspect_def introspect_failed_def Let_def
      split: option.splits sum.splits)

text \<open>
  The \<^verbatim>\<open>except\<close> clauses name \<^verbatim>\<open>Exception\<close>, and that matters: something raised by
  the listing of collections that is not an instance of it passes both clauses and leaves
  the handler.
\<close>

lemma test_database_lets_through:
  assumes "name_attr h = Inr a" and "list_collection_names h = Inl x"
      and "exc_class x = BaseExceptionOnly"
  shows "test_database (Some h) ev = Inl x"
  using assms
  by (simp add: test_database_def try_except_def outer_body_def introspect_def Let_def)

lemma test_database_interrupted:
  "test_database (Some interrupted_db) ev = Inl (Raised BaseExceptionOnly (ascii ''interrupted''))"
  by (rule test_database_lets_through [where a = "Some (ascii ''edmin'')"])
     (simp_all add: interrupted_db_def)

lemma take_50_message:
  "take 50 (ascii ''localhost:27017: [Errno 111] Connection refused (configured timeouts: 30s)'')
     = ascii ''localhost:27017: [Errno 111] Connection refused (c''"
  by (simp add: ascii_def)

lemma test_database_no_store:
  "test_database None env_filled_url = Inr response_no_store"
  by (simp add: test_database_def try_except_def outer_body_def initial_response_def
        response_no_store_def env_filled_url_def env_flag_def truthy_def ascii_def)

lemma test_database_unreachable:
  "test_database (Some unreachable_db) env_filled_url = Inr response_unreachable"
  by (simp add: test_database_def try_except_def outer_body_def introspect_def
        introspect_failed_def initial_response_def unreachable_db_def Let_def
        response_unreachable_def env_filled_url_def env_flag_def truthy_def ascii_def)

text \<open>
  C6: for every store handle whose failures are instances of \<^verbatim>\<open>Exception\<close>, and
  without a handle, \<^verbatim>\<open>GET /test\<close> answers 200 with a diagnostic object: no exception
  leaves the handler. Without a handle the \<^verbatim>\<open>database\<close> field reports that the store
  is not initialized; when looking at the handle or listing its collections raises, the
  field reports the error with the first 50 characters of the exception message.
\<close>

theorem test_database_never_fails:
  assumes "store_raises_exceptions db"
  shows "http_status (test_database db ev) = 200
   \<and> (\<exists>r. test_database db ev = Inr r
        \<and> database r =
           (case db of
              None \<Rightarrow> warning_sign @ ascii ''  Available but not initialized''
            | Some h \<Rightarrow>
                (case name_attr h of
                   Inl x \<Rightarrow> cross_mark @ ascii '' Error: '' @ take 50 (exc_msg x)
                 | Inr a \<Rightarrow>
                     (case list_collection_names h of
                        Inl x \<Rightarrow>
                          warning_sign @ ascii ''  Connected but Error: ''
                            @ take 50 (exc_msg x)
                      | Inr cs \<Rightarrow> check_mark @ ascii '' Connected & Working''))))"
proof -
  from test_database_returns [OF assms, of ev] obtain r
    where r: "test_database db ev = Inr r"
      and d: "database r =
           (case db of
              None \<Rightarrow> warning_sign @ ascii ''  Available but not initialized''
            | Some h \<Rightarrow>
                (case name_attr h of
                   Inl x \<Rightarrow> cross_mark @ ascii '' Error: '' @ take 50 (exc_msg x)
                 | Inr a \<Rightarrow>
                     (case list_collection_names h of
                        Inl x \<Rightarrow>
                          warning_sign @ ascii ''  Connected but Error: ''
                            @ take 50 (exc_msg x)
                      | Inr cs \<Rightarrow> check_mark @ ascii '' Connected & Working'')))"
    by blast
  from r have "http_status (test_database db ev) = 200"
    by (simp add: http_status_def)
  with r d show ?thesis by blast
qed

theorem test_database_never_fails_witness:
  "store_raises_exceptions (Some unreachable_db)
   \<and> http_status (test_database (Some unreachable_db) env_filled_url) = 200
   \<and> test_database (Some unreachable_db) env_filled_url = Inr response_unreachable
   \<and> database response_unreachable =
       warning_sign @ ascii ''  Connected but Error: ''
         @ ascii ''localhost:27017: [Errno 111] Connection refused (c''"
proof -
  have h: "store_raises_exceptions (Some unreachable_db)"
    by (simp add: store_raises_exceptions_def unreachable_db_def)
  have d: "database response_unreachable =
       warning_sign @ ascii ''  Connected but Error: ''
         @ ascii ''localhost:27017: [Errno 111] Connection refused (c''"
    by (simp add: response_unreachable_def)
  from test_database_never_fails [OF h, of env_filled_url] h d test_database_unreachable
  show ?thesis by simp
qed

text \<open>
  C10 as stated fails: in both environments below \<^verbatim>\<open>DATABASE_URL\<close> is set, yet the
  \<^verbatim>\<open>database_url\<close> field differs, because a variable set to the empty string counts as
  not set.
\<close>

theorem env_presence_counterexample:
  "(DATABASE_URL env_empty_url \<noteq> None) = (DATABASE_URL env_filled_url \<noteq> None)
   \<and> (DATABASE_NAME env_empty_url \<noteq> None) = (DATABASE_NAME env_filled_url \<noteq> None)
   \<and> map_sum id database_url (test_database None env_empty_url)
       = Inr (Some (cross_mark @ ascii '' Not Set''))
   \<and> map_sum id database_url (test_database None env_filled_url)
       = Inr (Some (check_mark @ ascii '' Set''))
   \<and> cross_mark @ ascii '' Not Set'' \<noteq> check_mark @ ascii '' Set''"
  by (simp add: test_database_def try_except_def outer_body_def
        env_empty_url_def env_filled_url_def env_flag_def
        truthy_def ascii_def cross_mark_def check_mark_def)

text \<open>
  C10, amended: the \<^verbatim>\<open>database_url\<close> and \<^verbatim>\<open>database_name\<close> fields of the response
  depend only on whether \<^verbatim>\<open>DATABASE_URL\<close> and \<^verbatim>\<open>DATABASE_NAME\<close> are set to a
  non-empty value: whenever the handler returns, the two fields are the flags computed
  from the environment, so two runs with the same environment that both return have the
  same two fields, whatever the state of the store connection in each.
\<close>

theorem env_flags_independent_of_store:
  assumes "test_database db ev = Inr r" and "test_database db' ev = Inr r'"
  shows "database_url r =
           Some (if truthy (DATABASE_URL ev) then check_mark @ ascii '' Set''
                 else cross_mark @ ascii '' Not Set'')
         \<and> database_name r =
           Some (if truthy (DATABASE_NAME ev) then check_mark @ ascii '' Set''
                 else cross_mark @ ascii '' Not Set'')
         \<and> database_url r = database_url r'
         \<and> database_name r = database_name r'"
  using test_database_flags [OF assms(1)] test_database_flags [OF assms(2)]
  by (simp add: env_flag_def)

theorem env_flags_independent_of_store_witness:
  "test_database None env_filled_url = Inr response_no_store
   \<and> test_database (Some unreachable_db) env_filled_url = Inr response_unreachable
   \<and> database response_no_store \<noteq> database response_unreachable
   \<and> database_url response_no_store = Some (check_mark @ ascii '' Set'')
   \<and> database_name response_no_store = Some (cross_mark @ ascii '' Not Set'')
   \<and> database_url response_no_store = database_url response_unreachable
   \<and> database_name response_no_store = database_name response_unreachable"
proof -
  have t: "truthy (DATABASE_URL env_filled_url)" "\<not> truthy (DATABASE_NAME env_filled_url)"
    by (simp_all add: env_filled_url_def truthy_def ascii_def)
  have n: "database response_no_store \<noteq> database response_unreachable"
    by (simp add: response_no_store_def response_unreachable_def ascii_def)
  have e: "database_url response_no_store = Some (check_mark @ ascii '' Set'')
           \<and> database_name response_no_store = Some (cross_mark @ ascii '' Not Set'')
           \<and> database_url response_no_store = database_url response_unreachable
           \<and> database_name response_no_store = database_name response_unreachable"
    using env_flags_independent_of_store
            [OF test_database_no_store test_database_unreachable]
    unfolding if_P [OF t(1)] if_not_P [OF t(2)] .
  with test_database_no_store test_database_unreachable n
  show ?thesis by blast
qed

end
